theory Spec2Isabelle
  imports Main "HOL-Library.Sublist"
begin

section \<open>Mounting an R2 bucket into the sandbox: \<open>src/gateway/r2.ts\<close>\<close>

text \<open>
  The module has two functions: the accessibility probe \<open>isR2Accessible\<close> and the
  mount routine \<open>mountR2Storage\<close>. Both talk to a sandbox (an external collaborator)
  and both end in a \<open>try\<close>/\<open>catch\<close>. The model makes three things explicit:
  \<^item> a JavaScript exception is a value of type \<open>thrown\<close>, and every computation
    returns \<open>thrown + 'a\<close> (\<open>Inl\<close> the exception), so that "does not throw" is a
    statement about the result and not a consequence of the types;
  \<^item> every call to the sandbox, every sleep and every console line is an
    \<open>event\<close>; a run returns its result together with the list of its events in
    program order;
  \<^item> the sandbox is a record of its answers. One run calls \<open>mountBucket\<close> at most
    once, \<open>startProcess\<close> at most once and \<open>getLogs\<close> at most once, so one answer
    per operation describes every behaviour of the collaborator; \<open>proc.status\<close> is
    read once per evaluation of the loop condition, so it is a sequence indexed by
    the number of the read.
\<close>

subsection \<open>JavaScript values\<close>

text \<open>
  \<open>catch (err)\<close> is untyped: a promise can be rejected with any value. The code
  asks two things of the value it catches, \<open>err instanceof Error\<close> and then either
  \<open>err.message\<close> or \<open>String(err)\<close>, so a thrown value is one of:
  \<^item> \<open>JsError m st\<close>: an \<open>Error\<close> instance whose \<open>message\<close> is the string \<open>m\<close>,
    with its optional \<open>stack\<close>;
  \<^item> \<open>JsValue s\<close>: a value that is not an \<open>Error\<close> instance and that
    \<open>String(err)\<close> converts to the string \<open>s\<close> (a string, a number, \<open>null\<close>, a
    plain object);
  \<^item> \<open>JsErrorOddMessage st e\<close>: an \<open>Error\<close> instance whose \<open>message\<close> is not a
    string and has no \<open>includes\<close> method (\<open>undefined\<close>, a number); calling
    \<open>includes\<close> on that message throws \<open>e\<close>, a \<open>TypeError\<close>;
  \<^item> \<open>JsUnprintable e\<close>: a value that is not an \<open>Error\<close> instance and that
    \<open>String(err)\<close> cannot convert, as \<open>Object.create(null)\<close> or an object whose
    \<open>toString\<close> throws; the conversion throws \<open>e\<close>.
\<close>

datatype thrown =
    JsError (message: string) (stack: "string option")
  | JsValue (rendering: string)
  | JsErrorOddMessage "string option" thrown
  | JsUnprintable thrown

text \<open>The value of \<open>errorMessage\<close> (line 61) when the conversion does not throw.\<close>

datatype js_message =
    StringMessage string
  | OddMessage thrown

text \<open>
  An optional string field (\<open>string | undefined\<close>) is a \<open>string option\<close>. It is
  truthy when it is defined and not the empty string.
\<close>

fun truthy :: "string option \<Rightarrow> bool" where
  "truthy None = False"
| "truthy (Some s) = (s \<noteq> [])"

text \<open>What a template literal \<open>`${v}`\<close> prints for an optional string.\<close>

fun template :: "string option \<Rightarrow> string" where
  "template None = ''undefined''"
| "template (Some s) = s"

text \<open>
  \<open>String.prototype.includes\<close>: the needle occurs in the string as a contiguous
  run of characters, at some position.
\<close>

fun str_includes :: "string \<Rightarrow> string \<Rightarrow> bool" where
  "str_includes [] needle = (needle = [])"
| "str_includes (c # cs) needle = (prefix needle (c # cs) \<or> str_includes cs needle)"

subsection \<open>Environment and configuration\<close>

text \<open>The fields of \<open>MoltbotEnv\<close> that the module reads.\<close>

record MoltbotEnv =
  R2_ACCESS_KEY_ID :: "string option"
  R2_SECRET_ACCESS_KEY :: "string option"
  CF_ACCOUNT_ID :: "string option"
  R2_BUCKET_NAME :: "string option"

text \<open>
  \<open>R2_MOUNT_PATH\<close> and \<open>getR2BucketName\<close> are imported from \<open>../config\<close>. The
  functions below take them as a parameter.
\<close>

record config =
  R2_MOUNT_PATH :: string
  getR2BucketName :: "MoltbotEnv \<Rightarrow> string"

subsection \<open>The sandbox\<close>

record credentials =
  accessKeyId :: "string option"
  secretAccessKey :: "string option"

record mount_options =
  endpoint :: string
  credentials :: credentials

record logs =
  stdout :: "string option"
  stderr :: "string option"

record process =
  status :: "nat \<Rightarrow> string"
  getLogs :: "thrown + logs"

record sandbox =
  mountBucket :: "string \<Rightarrow> string \<Rightarrow> mount_options \<Rightarrow> thrown + unit"
  startProcess :: "string \<Rightarrow> thrown + process"

subsection \<open>Events\<close>

datatype level = LOG | WARN | ERROR

datatype js_arg =
    Str string
  | Bool bool
  | Undefined
  | Thrown thrown
  | Obj "(string \<times> string) list"

datatype event =
    MountBucketCall string string mount_options
  | StartProcessCall string
  | Sleep nat
  | GetLogsCall
  | Console level "js_arg list"

type_synonym 'a run = "(thrown + 'a) \<times> event list"

fun mount_calls :: "event list \<Rightarrow> (string \<times> string \<times> mount_options) list" where
  "mount_calls [] = []"
| "mount_calls (MountBucketCall b p opts # es) = (b, p, opts) # mount_calls es"
| "mount_calls (e # es) = mount_calls es"

subsection \<open>\<open>isR2Accessible\<close>\<close>

definition probe_command :: "config \<Rightarrow> string" where
  "probe_command cfg =
     ''test -d '' @ R2_MOUNT_PATH cfg @ '' && touch '' @ R2_MOUNT_PATH cfg
     @ ''/.mount-check && rm -f '' @ R2_MOUNT_PATH cfg
     @ ''/.mount-check && echo \"accessible\"''"

text \<open>
  The poll loop (lines 17 to 21). It returns the final value of \<open>attempts\<close> and the
  sleeps it made. \<open>status proc attempts\<close> is the value that the read of
  \<open>proc.status\<close> gives when the counter is \<open>attempts\<close>.
\<close>

function poll :: "process \<Rightarrow> nat \<Rightarrow> nat \<times> event list" where
  "poll proc attempts =
     (if status proc attempts = ''running'' \<and> attempts < 10
      then (case poll proc (attempts + 1) of (n, evs) \<Rightarrow> (n, Sleep 200 # evs))
      else (attempts, []))"
  by pat_completeness auto
termination
  by (relation "measure (\<lambda>(proc, attempts). 10 - attempts)") auto

declare poll.simps [simp del]

text \<open>The \<open>slice(0, 100)\<close> of the optional \<open>stdout\<close>, as a console argument.\<close>

fun slice_arg :: "string option \<Rightarrow> js_arg" where
  "slice_arg None = Undefined"
| "slice_arg (Some s) = Str (take 100 s)"

text \<open>\<open>!!(logs.stdout && logs.stdout.includes('accessible'))\<close>\<close>

fun stdout_accessible :: "string option \<Rightarrow> bool" where
  "stdout_accessible None = False"
| "stdout_accessible (Some s) = (s \<noteq> [] \<and> str_includes s ''accessible'')"

text \<open>The body of the \<open>try\<close> block (lines 14 to 25).\<close>

definition isR2Accessible_try :: "config \<Rightarrow> sandbox \<Rightarrow> bool run" where
  "isR2Accessible_try cfg sb =
     (case startProcess sb (probe_command cfg) of
        Inl err \<Rightarrow> (Inl err, [StartProcessCall (probe_command cfg)])
      | Inr proc \<Rightarrow>
          (case poll proc 0 of (attempts, sleeps) \<Rightarrow>
             (case getLogs proc of
                Inl err \<Rightarrow>
                  (Inl err, StartProcessCall (probe_command cfg) # sleeps @ [GetLogsCall])
              | Inr lg \<Rightarrow>
                  (Inr (stdout_accessible (stdout lg)),
                   StartProcessCall (probe_command cfg) # sleeps @
                   [GetLogsCall,
                    Console LOG [Str ''isR2Accessible check:'',
                                 Bool (stdout_accessible (stdout lg)),
                                 Str ''stdout:'', slice_arg (stdout lg)]]))))"

text \<open>The function: the \<open>try\<close> block with its \<open>catch\<close> (lines 26 to 29).\<close>

definition isR2Accessible :: "config \<Rightarrow> sandbox \<Rightarrow> bool run" where
  "isR2Accessible cfg sb =
     (case isR2Accessible_try cfg sb of
        (Inr accessible, evs) \<Rightarrow> (Inr accessible, evs)
      | (Inl err, evs) \<Rightarrow>
          (Inr False, evs @ [Console LOG [Str ''isR2Accessible error:'', Thrown err]]))"

subsection \<open>\<open>mountR2Storage\<close>\<close>

definition mount_endpoint :: "MoltbotEnv \<Rightarrow> string" where
  "mount_endpoint env = ''https://'' @ template (CF_ACCOUNT_ID env) @ ''.r2.cloudflarestorage.com''"

definition mount_payload :: "MoltbotEnv \<Rightarrow> mount_options" where
  "mount_payload env =
     \<lparr>endpoint = mount_endpoint env,
      credentials = \<lparr>accessKeyId = R2_ACCESS_KEY_ID env,
                     secretAccessKey = R2_SECRET_ACCESS_KEY env\<rparr>\<rparr>"

text \<open>The body of the \<open>try\<close> block (lines 50 to 59).\<close>

definition mountR2Storage_try :: "config \<Rightarrow> sandbox \<Rightarrow> MoltbotEnv \<Rightarrow> bool run" where
  "mountR2Storage_try cfg sb env =
     (case mountBucket sb (getR2BucketName cfg env) (R2_MOUNT_PATH cfg) (mount_payload env) of
        Inl err \<Rightarrow>
          (Inl err,
           [Console LOG [Str ''Mounting R2 bucket'', Str (getR2BucketName cfg env), Str ''at'',
                         Str (R2_MOUNT_PATH cfg), Str ''endpoint:'', Str (mount_endpoint env)],
            MountBucketCall (getR2BucketName cfg env) (R2_MOUNT_PATH cfg) (mount_payload env)])
      | Inr _ \<Rightarrow>
          (Inr True,
           [Console LOG [Str ''Mounting R2 bucket'', Str (getR2BucketName cfg env), Str ''at'',
                         Str (R2_MOUNT_PATH cfg), Str ''endpoint:'', Str (mount_endpoint env)],
            MountBucketCall (getR2BucketName cfg env) (R2_MOUNT_PATH cfg) (mount_payload env),
            Console LOG [Str ''R2 bucket mounted successfully - moltbot data will persist across sessions'']]))"

text \<open>\<open>err instanceof Error ? err.message : String(err)\<close>\<close>

fun errorMessage :: "thrown \<Rightarrow> thrown + js_message" where
  "errorMessage (JsError m st) = Inr (StringMessage m)"
| "errorMessage (JsErrorOddMessage st e) = Inr (OddMessage e)"
| "errorMessage (JsValue s) = Inr (StringMessage s)"
| "errorMessage (JsUnprintable e) = Inl e"

text \<open>\<open>if (err instanceof Error && err.stack) console.error(...)\<close>\<close>

fun stack_lines :: "thrown \<Rightarrow> event list" where
  "stack_lines (JsError m (Some st)) =
     (if st \<noteq> [] then [Console ERROR [Str ''R2 mount stack:'', Str st]] else [])"
| "stack_lines (JsErrorOddMessage (Some st) e) =
     (if st \<noteq> [] then [Console ERROR [Str ''R2 mount stack:'', Str st]] else [])"
| "stack_lines err = []"

text \<open>
  The \<open>catch\<close> block (lines 60 to 92). It has no \<open>try\<close> of its own: when
  \<open>String(err)\<close> throws at line 61, or \<open>errorMessage.includes\<close> at line 66, the
  exception leaves the block before any console line.
\<close>

definition mountR2Storage_catch :: "config \<Rightarrow> sandbox \<Rightarrow> MoltbotEnv \<Rightarrow> thrown \<Rightarrow> bool run" where
  "mountR2Storage_catch cfg sb env err =
     (case errorMessage err of
        Inl e \<Rightarrow> (Inl e, [])
      | Inr (OddMessage e) \<Rightarrow> (Inl e, [])
      | Inr (StringMessage msg) \<Rightarrow>
          (if str_includes msg ''already in use''
           then
             (case isR2Accessible cfg sb of
                (Inl e, evs) \<Rightarrow>
                  (Inl e,
                   Console LOG [Str ''R2 bucket already mounted at'', Str (R2_MOUNT_PATH cfg),
                                Str ''(confirmed by Sandbox API)''] # evs)
              | (Inr accessible, evs) \<Rightarrow>
                  (if accessible
                   then (Inr True,
                         Console LOG [Str ''R2 bucket already mounted at'', Str (R2_MOUNT_PATH cfg),
                                      Str ''(confirmed by Sandbox API)''] # evs @
                         [Console LOG [Str ''R2 mount verified - storage is accessible'']])
                   else (Inr True,
                         Console LOG [Str ''R2 bucket already mounted at'', Str (R2_MOUNT_PATH cfg),
                                      Str ''(confirmed by Sandbox API)''] # evs @
                         [Console WARN [Str ''R2 mount registered but filesystem check failed - mount may be initializing'']])))
           else
             (Inr False,
              Console ERROR [Str ''R2 mount error:'', Str msg] # stack_lines err @
              [Console ERROR [Str ''R2 mount details:'',
                              Obj [(''bucket'', getR2BucketName cfg env),
                                   (''mountPath'', R2_MOUNT_PATH cfg),
                                   (''endpoint'', mount_endpoint env)]],
               Console ERROR [Str ''Failed to mount R2 bucket:'', Thrown err]])))"

text \<open>The function (lines 39 to 93): the guard, then the \<open>try\<close> with its \<open>catch\<close>.\<close>

definition mountR2Storage :: "config \<Rightarrow> sandbox \<Rightarrow> MoltbotEnv \<Rightarrow> bool run" where
  "mountR2Storage cfg sb env =
     (if \<not> truthy (R2_ACCESS_KEY_ID env) \<or> \<not> truthy (R2_SECRET_ACCESS_KEY env)
         \<or> \<not> truthy (CF_ACCOUNT_ID env)
      then (Inr False,
            [Console LOG [Str ''R2 storage not configured (missing R2_ACCESS_KEY_ID, R2_SECRET_ACCESS_KEY, or CF_ACCOUNT_ID)'']])
      else
        (case mountR2Storage_try cfg sb env of
           (Inr r, evs) \<Rightarrow> (Inr r, evs)
         | (Inl err, evs) \<Rightarrow>
             (case mountR2Storage_catch cfg sb env err of
                (r, evs') \<Rightarrow> (r, evs @ evs'))))"

subsection \<open>The configuration module\<close>

text \<open>
  Modelled from the spec: the module \<open>../config\<close>, which exports \<open>R2_MOUNT_PATH\<close>
  and \<open>getR2BucketName\<close>, is not among the sources. The spec says that the
  configuration "supplies the fixed mount path and bucket-name resolution (env
  override or default)" and that a custom bucket-name override "is passed through
  verbatim to the mount call instead of the default name". The override is the
  field \<open>R2_BUCKET_NAME\<close> of the environment; the two literals are the ones that
  the tests of \<open>mountR2Storage\<close> expect (\<open>r2.test.ts\<close>, lines 79, 80 and 97 to 105).
\<close>

definition config_from_spec :: config where
  "config_from_spec =
     \<lparr>R2_MOUNT_PATH = ''/data/moltbot'',
      getR2BucketName = (\<lambda>env. case R2_BUCKET_NAME env of
                                  Some name \<Rightarrow> name
                                | None \<Rightarrow> ''moltbot-data'')\<rparr>"

subsection \<open>The mocks of the test utilities\<close>

text \<open>
  \<open>createMockEnv\<close>, \<open>createMockEnvWithR2\<close>, \<open>createMockProcess\<close> and
  \<open>createMockSandbox\<close> of the shared test utilities, without their overrides.
  \<open>mockError msg\<close> stands for \<open>new Error(msg)\<close>.
\<close>

definition createMockEnv :: MoltbotEnv where
  "createMockEnv =
     \<lparr>R2_ACCESS_KEY_ID = None, R2_SECRET_ACCESS_KEY = None,
      CF_ACCOUNT_ID = None, R2_BUCKET_NAME = None\<rparr>"

definition createMockEnvWithR2 :: MoltbotEnv where
  "createMockEnvWithR2 =
     createMockEnv\<lparr>R2_ACCESS_KEY_ID := Some ''test-key-id'',
                    R2_SECRET_ACCESS_KEY := Some ''test-secret-key'',
                    CF_ACCOUNT_ID := Some ''test-account-id''\<rparr>"

definition createMockProcess :: "string \<Rightarrow> string \<Rightarrow> process" where
  "createMockProcess out st =
     \<lparr>status = (\<lambda>_. st), getLogs = Inr \<lparr>stdout = Some out, stderr = Some ''''\<rparr>\<rparr>"

definition mockError :: "string \<Rightarrow> thrown" where
  "mockError msg = JsError msg (Some (''Error: '' @ msg))"

definition createMockSandbox :: "bool \<Rightarrow> sandbox" where
  "createMockSandbox mounted =
     \<lparr>mountBucket = (\<lambda>_ _ _.
        if mounted
        then Inl (mockError ''InvalidMountConfigError: Mount path \"/data/moltbot\" is already in use by bucket \"moltbot-data\". Unmount the existing bucket first or use a different mount path.'')
        else Inr ()),
      startProcess = (\<lambda>_.
        if mounted then Inr (createMockProcess ''accessible'' ''completed'')
        else Inr (createMockProcess '''' ''completed''))\<rparr>"

section \<open>Properties\<close>

subsection \<open>Auxiliary facts\<close>

lemma str_includes_sublist: "str_includes s needle = sublist needle s"
  by (induction s) (simp_all add: sublist_Cons_right)

lemma str_includes_iff: "str_includes s needle \<longleftrightarrow> (\<exists>u v. s = u @ needle @ v)"
  by (simp add: str_includes_sublist sublist_def)

lemma poll_spec:
  "poll proc a = (n, evs) \<Longrightarrow> a \<le> 10 \<Longrightarrow>
     a \<le> n \<and> n \<le> 10 \<and> evs = replicate (n - a) (Sleep 200)
     \<and> (\<forall>i. a \<le> i \<and> i < n \<longrightarrow> status proc i = ''running'')
     \<and> (n < 10 \<longrightarrow> status proc n \<noteq> ''running'')"
proof (induction proc a arbitrary: n evs rule: poll.induct)
  case (1 proc attempts)
  show ?case
  proof (cases "status proc attempts = ''running'' \<and> attempts < 10")
    case True
    obtain n' evs' where rec: "poll proc (attempts + 1) = (n', evs')"
      by (cases "poll proc (attempts + 1)")
    from True rec "1.prems"(1) have eq: "n = n'" "evs = Sleep 200 # evs'"
      by (simp_all add: poll.simps [of proc attempts])
    from True have "attempts + 1 \<le> 10" by simp
    from "1.IH" [OF True rec this]
    have ih: "attempts + 1 \<le> n'" "n' \<le> 10" "evs' = replicate (n' - (attempts + 1)) (Sleep 200)"
      "\<forall>i. attempts + 1 \<le> i \<and> i < n' \<longrightarrow> status proc i = ''running''"
      "n' < 10 \<longrightarrow> status proc n' \<noteq> ''running''"
      by simp_all
    have "Sleep 200 # evs' = replicate (n' - attempts) (Sleep 200)"
      using ih(1,3) by (simp add: Suc_diff_le replicate_Suc [symmetric] del: replicate_Suc)
    moreover have "\<forall>i. attempts \<le> i \<and> i < n' \<longrightarrow> status proc i = ''running''"
    proof (intro allI impI)
      fix i assume "attempts \<le> i \<and> i < n'"
      then show "status proc i = ''running''"
        using ih(4) True by (cases "i = attempts") auto
    qed
    ultimately show ?thesis using eq ih by simp
  next
    case False
    with "1.prems" have "n = attempts" "evs = []"
      by (auto simp add: poll.simps [of proc attempts])
    with False "1.prems"(2) show ?thesis by auto
  qed
qed

lemma isR2Accessible_returns: "\<exists>b. fst (isR2Accessible cfg sb) = Inr b"
  by (auto simp add: isR2Accessible_def split: prod.splits sum.splits)

lemma mount_calls_append: "mount_calls (xs @ ys) = mount_calls xs @ mount_calls ys"
  by (induction xs rule: mount_calls.induct) simp_all

lemma mount_calls_poll: "poll proc a = (n, evs) \<Longrightarrow> mount_calls evs = []"
proof (induction proc a arbitrary: n evs rule: poll.induct)
  case (1 proc attempts)
  show ?case
  proof (cases "status proc attempts = ''running'' \<and> attempts < 10")
    case True
    obtain n' evs' where rec: "poll proc (attempts + 1) = (n', evs')"
      by (cases "poll proc (attempts + 1)")
    from True rec "1.prems" have "evs = Sleep 200 # evs'"
      by (simp add: poll.simps [of proc attempts])
    with "1.IH" [OF True rec] show ?thesis by simp
  next
    case False
    with "1.prems" show ?thesis by (auto simp add: poll.simps [of proc attempts])
  qed
qed

lemma mount_calls_isR2Accessible_try:
  "isR2Accessible_try cfg sb = (r, evs) \<Longrightarrow> mount_calls evs = []"
  by (auto simp add: isR2Accessible_try_def mount_calls_append
           split: sum.splits prod.splits dest: mount_calls_poll)

lemma mount_calls_isR2Accessible:
  "isR2Accessible cfg sb = (r, evs) \<Longrightarrow> mount_calls evs = []"
  by (auto simp add: isR2Accessible_def mount_calls_append
           split: sum.splits prod.splits dest: mount_calls_isR2Accessible_try)

lemma mount_calls_stack_lines: "mount_calls (stack_lines err) = []"
  by (induction err rule: stack_lines.induct) simp_all

lemma mount_calls_catch:
  "mountR2Storage_catch cfg sb env err = (r, evs) \<Longrightarrow> mount_calls evs = []"
  by (auto simp add: mountR2Storage_catch_def mount_calls_append mount_calls_stack_lines
           split: prod.splits sum.splits js_message.splits if_splits
           dest: mount_calls_isR2Accessible)

lemma mount_calls_try:
  "mount_calls (snd (mountR2Storage_try cfg sb env)) =
     [(getR2BucketName cfg env, R2_MOUNT_PATH cfg, mount_payload env)]"
  by (simp add: mountR2Storage_try_def split: sum.splits)

lemma mount_calls_mountR2Storage:
  "mount_calls (snd (mountR2Storage cfg sb env)) =
     (if truthy (R2_ACCESS_KEY_ID env) \<and> truthy (R2_SECRET_ACCESS_KEY env) \<and> truthy (CF_ACCOUNT_ID env)
      then [(getR2BucketName cfg env, R2_MOUNT_PATH cfg, mount_payload env)] else [])"
  using mount_calls_try [of cfg sb env]
  by (auto simp add: mountR2Storage_def mount_calls_append
           split: prod.splits sum.splits dest: mount_calls_catch)

lemma fst_try:
  "fst (mountR2Storage_try cfg sb env) =
     (case mountBucket sb (getR2BucketName cfg env) (R2_MOUNT_PATH cfg) (mount_payload env) of
        Inl err \<Rightarrow> Inl err | Inr u \<Rightarrow> Inr True)"
  by (simp add: mountR2Storage_try_def split: sum.splits)

text \<open>
  What the \<open>catch\<close> block yields: the exception of line 61 or of line 66 when
  there is one, and otherwise the outcome of the test of line 66.
\<close>

lemma fst_catch:
  "fst (mountR2Storage_catch cfg sb env err) =
     (case errorMessage err of
        Inl e \<Rightarrow> Inl e
      | Inr (OddMessage e) \<Rightarrow> Inl e
      | Inr (StringMessage msg) \<Rightarrow> Inr (str_includes msg ''already in use''))"
  using isR2Accessible_returns [of cfg sb]
  by (auto simp add: mountR2Storage_catch_def
           split: prod.splits sum.splits js_message.splits)

lemma fst_mountR2Storage:
  "fst (mountR2Storage cfg sb env) =
     (if truthy (R2_ACCESS_KEY_ID env) \<and> truthy (R2_SECRET_ACCESS_KEY env) \<and> truthy (CF_ACCOUNT_ID env)
      then (case mountBucket sb (getR2BucketName cfg env) (R2_MOUNT_PATH cfg) (mount_payload env) of
              Inl err \<Rightarrow>
                (case errorMessage err of
                   Inl e \<Rightarrow> Inl e
                 | Inr (OddMessage e) \<Rightarrow> Inl e
                 | Inr (StringMessage msg) \<Rightarrow> Inr (str_includes msg ''already in use''))
            | Inr u \<Rightarrow> Inr True)
      else Inr False)"
proof (cases "truthy (R2_ACCESS_KEY_ID env) \<and> truthy (R2_SECRET_ACCESS_KEY env) \<and> truthy (CF_ACCOUNT_ID env)")
  case False
  then show ?thesis by (auto simp add: mountR2Storage_def)
next
  case True
  obtain r evs where t: "mountR2Storage_try cfg sb env = (r, evs)"
    by (cases "mountR2Storage_try cfg sb env")
  show ?thesis
  proof (cases r)
    case (Inr b)
    with t True fst_try [of cfg sb env] show ?thesis
      by (auto simp add: mountR2Storage_def split: sum.splits)
  next
    case (Inl err)
    obtain r' evs' where c: "mountR2Storage_catch cfg sb env err = (r', evs')"
      by (cases "mountR2Storage_catch cfg sb env err")
    with fst_catch [of cfg sb env err]
    have "r' = (case errorMessage err of
                  Inl e \<Rightarrow> Inl e
                | Inr (OddMessage e) \<Rightarrow> Inl e
                | Inr (StringMessage msg) \<Rightarrow> Inr (str_includes msg ''already in use''))"
      by simp
    with Inl t c True fst_try [of cfg sb env] show ?thesis
      by (auto simp add: mountR2Storage_def split: sum.splits)
  qed
qed

text \<open>
  When the value that \<open>mountBucket\<close> throws has a string message (an \<open>Error\<close> with
  a string \<open>message\<close>, or a value that \<open>String\<close> converts), the function returns a
  boolean.
\<close>

lemma mountR2Storage_returns_for_messages:
  assumes "\<And>err. mountBucket sb (getR2BucketName cfg env) (R2_MOUNT_PATH cfg) (mount_payload env) = Inl err
             \<Longrightarrow> \<exists>msg. errorMessage err = Inr (StringMessage msg)"
  shows "\<exists>r. fst (mountR2Storage cfg sb env) = Inr r"
proof (cases "mountBucket sb (getR2BucketName cfg env) (R2_MOUNT_PATH cfg) (mount_payload env)")
  case (Inl err)
  from assms [OF Inl] obtain msg where "errorMessage err = Inr (StringMessage msg)" ..
  with Inl show ?thesis by (auto simp add: fst_mountR2Storage)
next
  case (Inr u)
  then show ?thesis by (auto simp add: fst_mountR2Storage)
qed

lemma mount_call_made:
  assumes "(b, p, opts) \<in> set (mount_calls (snd (mountR2Storage cfg sb env)))"
  shows "truthy (R2_ACCESS_KEY_ID env) \<and> truthy (R2_SECRET_ACCESS_KEY env)
         \<and> truthy (CF_ACCOUNT_ID env)
         \<and> b = getR2BucketName cfg env \<and> p = R2_MOUNT_PATH cfg \<and> opts = mount_payload env"
  using assms by (simp add: mount_calls_mountR2Storage split: if_splits)

lemma poll_always_running:
  "poll (createMockProcess ''accessible'' ''running'') 0 = (10, replicate 10 (Sleep 200))"
  by (simp add: poll.simps createMockProcess_def numeral_eq_Suc)

subsection \<open>The mount routine\<close>

text \<open>
  In the theorems below, "the \<open>mountBucket\<close> call" of a run is the call recorded
  in the events of that run, and its outcome is the sandbox's answer to exactly
  that call.
\<close>

text \<open>
  C1. For every credential set with all three fields present, if the sandbox's
  \<open>mountBucket\<close> call throws an error whose message contains "already in use",
  then \<open>mountR2Storage\<close> returns \<open>true\<close>. Nothing is assumed about the
  accessibility probe: the sandbox's \<open>startProcess\<close> is arbitrary. The instance
  below takes a sandbox whose probe fails (empty standard output).
\<close>

theorem already_in_use_returns_true:
  assumes "R2_ACCESS_KEY_ID env = Some k"
    and "R2_SECRET_ACCESS_KEY env = Some s"
    and "CF_ACCOUNT_ID env = Some a"
    and "(b, p, opts) \<in> set (mount_calls (snd (mountR2Storage cfg sb env)))"
    and "mountBucket sb b p opts = Inl err"
    and "errorMessage err = Inr (StringMessage msg)"
    and "str_includes msg ''already in use''"
  shows "fst (mountR2Storage cfg sb env) = Inr True"
proof -
  from mount_call_made [OF assms(4)] assms(5)
  have "truthy (R2_ACCESS_KEY_ID env) \<and> truthy (R2_SECRET_ACCESS_KEY env)
        \<and> truthy (CF_ACCOUNT_ID env)"
    and "mountBucket sb (getR2BucketName cfg env) (R2_MOUNT_PATH cfg) (mount_payload env) = Inl err"
    by simp_all
  with assms(6,7) show ?thesis by (simp add: fst_mountR2Storage)
qed

theorem already_in_use_returns_true_witness:
  "R2_ACCESS_KEY_ID createMockEnvWithR2 = Some ''test-key-id''
   \<and> R2_SECRET_ACCESS_KEY createMockEnvWithR2 = Some ''test-secret-key''
   \<and> CF_ACCOUNT_ID createMockEnvWithR2 = Some ''test-account-id''
   \<and> (''moltbot-data'', ''/data/moltbot'', mount_payload createMockEnvWithR2)
       \<in> set (mount_calls (snd (mountR2Storage config_from_spec
            ((createMockSandbox False)\<lparr>mountBucket := \<lambda>_ _ _. Inl (mockError ''InvalidMountConfigError: Mount path \"/data/moltbot\" is already in use by bucket \"moltbot-data\".'')\<rparr>)
            createMockEnvWithR2)))
   \<and> mountBucket ((createMockSandbox False)\<lparr>mountBucket := \<lambda>_ _ _. Inl (mockError ''InvalidMountConfigError: Mount path \"/data/moltbot\" is already in use by bucket \"moltbot-data\".'')\<rparr>)
         ''moltbot-data'' ''/data/moltbot'' (mount_payload createMockEnvWithR2)
       = Inl (mockError ''InvalidMountConfigError: Mount path \"/data/moltbot\" is already in use by bucket \"moltbot-data\".'')
   \<and> errorMessage (mockError ''InvalidMountConfigError: Mount path \"/data/moltbot\" is already in use by bucket \"moltbot-data\".'')
       = Inr (StringMessage ''InvalidMountConfigError: Mount path \"/data/moltbot\" is already in use by bucket \"moltbot-data\".'')
   \<and> str_includes ''InvalidMountConfigError: Mount path \"/data/moltbot\" is already in use by bucket \"moltbot-data\".'' ''already in use''
   \<and> fst (isR2Accessible config_from_spec
         ((createMockSandbox False)\<lparr>mountBucket := \<lambda>_ _ _. Inl (mockError ''InvalidMountConfigError: Mount path \"/data/moltbot\" is already in use by bucket \"moltbot-data\".'')\<rparr>))
       = Inr False
   \<and> fst (mountR2Storage config_from_spec
         ((createMockSandbox False)\<lparr>mountBucket := \<lambda>_ _ _. Inl (mockError ''InvalidMountConfigError: Mount path \"/data/moltbot\" is already in use by bucket \"moltbot-data\".'')\<rparr>)
         createMockEnvWithR2) = Inr True"
  (is "?h1 \<and> ?h2 \<and> ?h3 \<and> ?h4 \<and> ?h5 \<and> ?h6 \<and> ?h7 \<and> ?probe \<and> ?res")
proof -
  have h1: ?h1 and h2: ?h2 and h3: ?h3
    by (simp_all add: createMockEnvWithR2_def createMockEnv_def)
  have h4: ?h4
    by (simp add: mount_calls_mountR2Storage config_from_spec_def createMockEnvWithR2_def
        createMockEnv_def)
  have h5: ?h5 by simp
  have h6: ?h6 by (simp add: mockError_def)
  have h7: ?h7 by simp
  have probe: ?probe
    by (simp add: isR2Accessible_def isR2Accessible_try_def createMockSandbox_def
        createMockProcess_def poll.simps)
  from already_in_use_returns_true [OF h1 h2 h3 h4 h5 h6 h7] h1 h2 h3 h4 h5 h6 h7 probe
  show ?thesis by blast
qed

text \<open>
  C2. For every environment in which one of the three credential fields is absent,
  \<open>mountR2Storage\<close> returns \<open>false\<close> and \<open>mountBucket\<close> is never invoked: the
  only event of the run is the console line of the guard.
\<close>

theorem missing_credential_returns_false:
  assumes "R2_ACCESS_KEY_ID env = None \<or> R2_SECRET_ACCESS_KEY env = None
           \<or> CF_ACCOUNT_ID env = None"
  shows "fst (mountR2Storage cfg sb env) = Inr False
         \<and> mount_calls (snd (mountR2Storage cfg sb env)) = []
         \<and> snd (mountR2Storage cfg sb env) =
             [Console LOG [Str ''R2 storage not configured (missing R2_ACCESS_KEY_ID, R2_SECRET_ACCESS_KEY, or CF_ACCOUNT_ID)'']]"
  using assms by (auto simp add: mountR2Storage_def)

theorem missing_credential_returns_false_witness:
  "R2_ACCESS_KEY_ID (createMockEnv\<lparr>R2_SECRET_ACCESS_KEY := Some ''secret'', CF_ACCOUNT_ID := Some ''account123''\<rparr>) = None
   \<and> fst (mountR2Storage config_from_spec (createMockSandbox False)
            (createMockEnv\<lparr>R2_SECRET_ACCESS_KEY := Some ''secret'', CF_ACCOUNT_ID := Some ''account123''\<rparr>)) = Inr False
   \<and> mount_calls (snd (mountR2Storage config_from_spec (createMockSandbox False)
            (createMockEnv\<lparr>R2_SECRET_ACCESS_KEY := Some ''secret'', CF_ACCOUNT_ID := Some ''account123''\<rparr>))) = []
   \<and> R2_SECRET_ACCESS_KEY (createMockEnv\<lparr>R2_ACCESS_KEY_ID := Some ''key123'', CF_ACCOUNT_ID := Some ''account123''\<rparr>) = None
   \<and> fst (mountR2Storage config_from_spec (createMockSandbox False)
            (createMockEnv\<lparr>R2_ACCESS_KEY_ID := Some ''key123'', CF_ACCOUNT_ID := Some ''account123''\<rparr>)) = Inr False
   \<and> mount_calls (snd (mountR2Storage config_from_spec (createMockSandbox False)
            (createMockEnv\<lparr>R2_ACCESS_KEY_ID := Some ''key123'', CF_ACCOUNT_ID := Some ''account123''\<rparr>))) = []
   \<and> CF_ACCOUNT_ID (createMockEnv\<lparr>R2_ACCESS_KEY_ID := Some ''key123'', R2_SECRET_ACCESS_KEY := Some ''secret''\<rparr>) = None
   \<and> fst (mountR2Storage config_from_spec (createMockSandbox False)
            (createMockEnv\<lparr>R2_ACCESS_KEY_ID := Some ''key123'', R2_SECRET_ACCESS_KEY := Some ''secret''\<rparr>)) = Inr False
   \<and> mount_calls (snd (mountR2Storage config_from_spec (createMockSandbox False)
            (createMockEnv\<lparr>R2_ACCESS_KEY_ID := Some ''key123'', R2_SECRET_ACCESS_KEY := Some ''secret''\<rparr>))) = []"
proof -
  have a: "R2_ACCESS_KEY_ID (createMockEnv\<lparr>R2_SECRET_ACCESS_KEY := Some ''secret'', CF_ACCOUNT_ID := Some ''account123''\<rparr>) = None"
    and b: "R2_SECRET_ACCESS_KEY (createMockEnv\<lparr>R2_ACCESS_KEY_ID := Some ''key123'', CF_ACCOUNT_ID := Some ''account123''\<rparr>) = None"
    and c: "CF_ACCOUNT_ID (createMockEnv\<lparr>R2_ACCESS_KEY_ID := Some ''key123'', R2_SECRET_ACCESS_KEY := Some ''secret''\<rparr>) = None"
    by (simp_all add: createMockEnv_def)
  from a b c
    missing_credential_returns_false [OF disjI1, OF a, of config_from_spec "createMockSandbox False"]
    missing_credential_returns_false [OF disjI2, OF disjI1, OF b, of config_from_spec "createMockSandbox False"]
    missing_credential_returns_false [OF disjI2, OF disjI2, OF c, of config_from_spec "createMockSandbox False"]
  show ?thesis by blast
qed

text \<open>
  C3. For every environment with all three credentials present, if the sandbox's
  \<open>mountBucket\<close> call succeeds, \<open>mountR2Storage\<close> returns \<open>true\<close>, and that call
  is the only one; its arguments are the resolved bucket name, the fixed mount
  path, and the options with the endpoint derived from the account identifier
  and the two credential fields.
\<close>

theorem mount_success_returns_true:
  assumes "R2_ACCESS_KEY_ID env = Some k"
    and "R2_SECRET_ACCESS_KEY env = Some s"
    and "CF_ACCOUNT_ID env = Some a"
    and "(b, p, opts) \<in> set (mount_calls (snd (mountR2Storage cfg sb env)))"
    and "mountBucket sb b p opts = Inr ()"
  shows "fst (mountR2Storage cfg sb env) = Inr True
         \<and> mount_calls (snd (mountR2Storage cfg sb env)) = [(b, p, opts)]
         \<and> b = getR2BucketName cfg env
         \<and> p = R2_MOUNT_PATH cfg
         \<and> opts = \<lparr>endpoint = ''https://'' @ a @ ''.r2.cloudflarestorage.com'',
                    credentials = \<lparr>accessKeyId = Some k, secretAccessKey = Some s\<rparr>\<rparr>"
proof -
  from mount_call_made [OF assms(4)]
  have cfgd: "truthy (R2_ACCESS_KEY_ID env) \<and> truthy (R2_SECRET_ACCESS_KEY env)
              \<and> truthy (CF_ACCOUNT_ID env)"
    and args: "b = getR2BucketName cfg env" "p = R2_MOUNT_PATH cfg" "opts = mount_payload env"
    by simp_all
  from cfgd args assms(5) have "fst (mountR2Storage cfg sb env) = Inr True"
    by (simp add: fst_mountR2Storage)
  moreover from cfgd args have "mount_calls (snd (mountR2Storage cfg sb env)) = [(b, p, opts)]"
    by (simp add: mount_calls_mountR2Storage)
  moreover from assms(1-3) have "mount_payload env =
      \<lparr>endpoint = ''https://'' @ a @ ''.r2.cloudflarestorage.com'',
       credentials = \<lparr>accessKeyId = Some k, secretAccessKey = Some s\<rparr>\<rparr>"
    by (simp add: mount_payload_def mount_endpoint_def)
  ultimately show ?thesis using args by simp
qed

theorem mount_success_returns_true_witness:
  "R2_ACCESS_KEY_ID (createMockEnvWithR2\<lparr>R2_ACCESS_KEY_ID := Some ''key123'', R2_SECRET_ACCESS_KEY := Some ''secret'', CF_ACCOUNT_ID := Some ''account123''\<rparr>) = Some ''key123''
   \<and> R2_SECRET_ACCESS_KEY (createMockEnvWithR2\<lparr>R2_ACCESS_KEY_ID := Some ''key123'', R2_SECRET_ACCESS_KEY := Some ''secret'', CF_ACCOUNT_ID := Some ''account123''\<rparr>) = Some ''secret''
   \<and> CF_ACCOUNT_ID (createMockEnvWithR2\<lparr>R2_ACCESS_KEY_ID := Some ''key123'', R2_SECRET_ACCESS_KEY := Some ''secret'', CF_ACCOUNT_ID := Some ''account123''\<rparr>) = Some ''account123''
   \<and> (''moltbot-data'', ''/data/moltbot'',
        \<lparr>endpoint = ''https://account123.r2.cloudflarestorage.com'',
         credentials = \<lparr>accessKeyId = Some ''key123'', secretAccessKey = Some ''secret''\<rparr>\<rparr>)
       \<in> set (mount_calls (snd (mountR2Storage config_from_spec (createMockSandbox False)
            (createMockEnvWithR2\<lparr>R2_ACCESS_KEY_ID := Some ''key123'', R2_SECRET_ACCESS_KEY := Some ''secret'', CF_ACCOUNT_ID := Some ''account123''\<rparr>))))
   \<and> mountBucket (createMockSandbox False) ''moltbot-data'' ''/data/moltbot''
        \<lparr>endpoint = ''https://account123.r2.cloudflarestorage.com'',
         credentials = \<lparr>accessKeyId = Some ''key123'', secretAccessKey = Some ''secret''\<rparr>\<rparr> = Inr ()
   \<and> fst (mountR2Storage config_from_spec (createMockSandbox False)
            (createMockEnvWithR2\<lparr>R2_ACCESS_KEY_ID := Some ''key123'', R2_SECRET_ACCESS_KEY := Some ''secret'', CF_ACCOUNT_ID := Some ''account123''\<rparr>)) = Inr True
   \<and> mount_calls (snd (mountR2Storage config_from_spec (createMockSandbox False)
            (createMockEnvWithR2\<lparr>R2_ACCESS_KEY_ID := Some ''key123'', R2_SECRET_ACCESS_KEY := Some ''secret'', CF_ACCOUNT_ID := Some ''account123''\<rparr>)))
       = [(''moltbot-data'', ''/data/moltbot'',
           \<lparr>endpoint = ''https://account123.r2.cloudflarestorage.com'',
            credentials = \<lparr>accessKeyId = Some ''key123'', secretAccessKey = Some ''secret''\<rparr>\<rparr>)]"
  (is "?h1 \<and> ?h2 \<and> ?h3 \<and> ?h4 \<and> ?h5 \<and> ?res \<and> ?calls")
proof -
  have h1: ?h1 and h2: ?h2 and h3: ?h3
    by (simp_all add: createMockEnvWithR2_def createMockEnv_def)
  have h4: ?h4
    by (simp add: mount_calls_mountR2Storage config_from_spec_def createMockEnvWithR2_def
        createMockEnv_def mount_payload_def mount_endpoint_def)
  have h5: ?h5 by (simp add: createMockSandbox_def)
  from mount_success_returns_true [OF h1 h2 h3 h4 h5] h1 h2 h3 h4 h5
  show ?thesis by blast
qed

text \<open>
  C4. For every environment with all three credentials present, if the sandbox's
  \<open>mountBucket\<close> call throws an error whose message does not contain "already in
  use" (for example "Network timeout"), \<open>mountR2Storage\<close> returns \<open>false\<close>.
\<close>

theorem other_error_returns_false:
  assumes "R2_ACCESS_KEY_ID env = Some k"
    and "R2_SECRET_ACCESS_KEY env = Some s"
    and "CF_ACCOUNT_ID env = Some a"
    and "(b, p, opts) \<in> set (mount_calls (snd (mountR2Storage cfg sb env)))"
    and "mountBucket sb b p opts = Inl err"
    and "errorMessage err = Inr (StringMessage msg)"
    and "\<not> str_includes msg ''already in use''"
  shows "fst (mountR2Storage cfg sb env) = Inr False"
proof -
  from mount_call_made [OF assms(4)] assms(5)
  have "truthy (R2_ACCESS_KEY_ID env) \<and> truthy (R2_SECRET_ACCESS_KEY env)
        \<and> truthy (CF_ACCOUNT_ID env)"
    and "mountBucket sb (getR2BucketName cfg env) (R2_MOUNT_PATH cfg) (mount_payload env) = Inl err"
    by simp_all
  with assms(6,7) show ?thesis by (simp add: fst_mountR2Storage)
qed

theorem other_error_returns_false_witness:
  "R2_ACCESS_KEY_ID createMockEnvWithR2 = Some ''test-key-id''
   \<and> R2_SECRET_ACCESS_KEY createMockEnvWithR2 = Some ''test-secret-key''
   \<and> CF_ACCOUNT_ID createMockEnvWithR2 = Some ''test-account-id''
   \<and> (''moltbot-data'', ''/data/moltbot'', mount_payload createMockEnvWithR2)
       \<in> set (mount_calls (snd (mountR2Storage config_from_spec
            ((createMockSandbox False)\<lparr>mountBucket := \<lambda>_ _ _. Inl (mockError ''Network timeout'')\<rparr>)
            createMockEnvWithR2)))
   \<and> mountBucket ((createMockSandbox False)\<lparr>mountBucket := \<lambda>_ _ _. Inl (mockError ''Network timeout'')\<rparr>)
         ''moltbot-data'' ''/data/moltbot'' (mount_payload createMockEnvWithR2)
       = Inl (mockError ''Network timeout'')
   \<and> errorMessage (mockError ''Network timeout'') = Inr (StringMessage ''Network timeout'')
   \<and> \<not> str_includes ''Network timeout'' ''already in use''
   \<and> fst (mountR2Storage config_from_spec
         ((createMockSandbox False)\<lparr>mountBucket := \<lambda>_ _ _. Inl (mockError ''Network timeout'')\<rparr>)
         createMockEnvWithR2) = Inr False"
  (is "?h1 \<and> ?h2 \<and> ?h3 \<and> ?h4 \<and> ?h5 \<and> ?h6 \<and> ?h7 \<and> ?res")
proof -
  have h1: ?h1 and h2: ?h2 and h3: ?h3
    by (simp_all add: createMockEnvWithR2_def createMockEnv_def)
  have h4: ?h4
    by (simp add: mount_calls_mountR2Storage config_from_spec_def createMockEnvWithR2_def
        createMockEnv_def)
  have h5: ?h5 by simp
  have h6: ?h6 by (simp add: mockError_def)
  have h7: ?h7 by simp
  from other_error_returns_false [OF h1 h2 h3 h4 h5 h6 h7] h1 h2 h3 h4 h5 h6 h7
  show ?thesis by blast
qed

text \<open>
  C5. \<open>mountR2Storage\<close> is meant never to propagate an exception: its whole call
  to the sandbox is inside a \<open>try\<close>, the \<open>catch\<close> block turns a thrown value that
  is not an \<open>Error\<close> into a message with \<open>String(err)\<close>, and its last comment
  (line 89) reads "Don't fail if mounting fails". The \<open>catch\<close> block itself is
  not protected, though. When \<open>mountBucket\<close> rejects with \<open>Object.create(null)\<close>,
  \<open>String(err)\<close> at line 61 throws a \<open>TypeError\<close>, and that exception is the
  outcome of \<open>mountR2Storage\<close>: no boolean is returned. The same holds at line 66
  for an \<open>Error\<close> whose message has no \<open>includes\<close>. The instance below is the
  rejection with \<open>Object.create(null)\<close>.
\<close>

theorem mountR2Storage_rethrows:
  assumes "truthy (R2_ACCESS_KEY_ID env)"
    and "truthy (R2_SECRET_ACCESS_KEY env)"
    and "truthy (CF_ACCOUNT_ID env)"
    and "mountBucket sb (getR2BucketName cfg env) (R2_MOUNT_PATH cfg) (mount_payload env) = Inl err"
    and "err = JsUnprintable e \<or> err = JsErrorOddMessage st e"
  shows "fst (mountR2Storage cfg sb env) = Inl e"
  using assms by (auto simp add: fst_mountR2Storage)

theorem mountR2Storage_rethrows_witness:
  "truthy (R2_ACCESS_KEY_ID createMockEnvWithR2)
   \<and> truthy (R2_SECRET_ACCESS_KEY createMockEnvWithR2)
   \<and> truthy (CF_ACCOUNT_ID createMockEnvWithR2)
   \<and> mountBucket
        ((createMockSandbox False)\<lparr>mountBucket := \<lambda>_ _ _.
           Inl (JsUnprintable (JsError ''Cannot convert object to primitive value''
                                 (Some ''TypeError: Cannot convert object to primitive value'')))\<rparr>)
        (getR2BucketName config_from_spec createMockEnvWithR2) (R2_MOUNT_PATH config_from_spec)
        (mount_payload createMockEnvWithR2)
      = Inl (JsUnprintable (JsError ''Cannot convert object to primitive value''
                              (Some ''TypeError: Cannot convert object to primitive value'')))
   \<and> fst (mountR2Storage config_from_spec
         ((createMockSandbox False)\<lparr>mountBucket := \<lambda>_ _ _.
            Inl (JsUnprintable (JsError ''Cannot convert object to primitive value''
                                  (Some ''TypeError: Cannot convert object to primitive value'')))\<rparr>)
         createMockEnvWithR2)
      = Inl (JsError ''Cannot convert object to primitive value''
               (Some ''TypeError: Cannot convert object to primitive value''))"
  (is "?h1 \<and> ?h2 \<and> ?h3 \<and> ?h4 \<and> ?res")
proof -
  have h1: ?h1 and h2: ?h2 and h3: ?h3
    by (simp_all add: createMockEnvWithR2_def createMockEnv_def)
  have h4: ?h4 by simp
  from mountR2Storage_rethrows [OF h1 h2 h3 h4 disjI1 [OF refl]] h1 h2 h3 h4
  show ?thesis by blast
qed

subsection \<open>The accessibility probe\<close>

text \<open>
  C6. \<open>isR2Accessible\<close> never throws: it always returns a boolean, and whenever
  the \<open>try\<close> block raises an exception (in particular when \<open>startProcess\<close> throws,
  or when \<open>getLogs\<close> throws) it returns \<open>false\<close>.
\<close>

theorem isR2Accessible_never_throws:
  "(\<exists>r. fst (isR2Accessible cfg sb) = Inr r)
   \<and> (\<forall>e. fst (isR2Accessible_try cfg sb) = Inl e \<longrightarrow> fst (isR2Accessible cfg sb) = Inr False)
   \<and> (\<forall>e. startProcess sb (probe_command cfg) = Inl e
          \<longrightarrow> fst (isR2Accessible cfg sb) = Inr False)
   \<and> (\<forall>proc e. startProcess sb (probe_command cfg) = Inr proc \<and> getLogs proc = Inl e
          \<longrightarrow> fst (isR2Accessible cfg sb) = Inr False)"
proof (intro conjI allI impI)
  show "\<exists>r. fst (isR2Accessible cfg sb) = Inr r" by (rule isR2Accessible_returns)
next
  fix e assume "fst (isR2Accessible_try cfg sb) = Inl e"
  then show "fst (isR2Accessible cfg sb) = Inr False"
    by (cases "isR2Accessible_try cfg sb") (simp add: isR2Accessible_def)
next
  fix e assume "startProcess sb (probe_command cfg) = Inl e"
  then show "fst (isR2Accessible cfg sb) = Inr False"
    by (simp add: isR2Accessible_def isR2Accessible_try_def)
next
  fix proc e assume "startProcess sb (probe_command cfg) = Inr proc \<and> getLogs proc = Inl e"
  then show "fst (isR2Accessible cfg sb) = Inr False"
    by (simp add: isR2Accessible_def isR2Accessible_try_def split: prod.splits)
qed

theorem isR2Accessible_never_throws_witness:
  "startProcess ((createMockSandbox True)\<lparr>startProcess := \<lambda>_. Inl (mockError ''sandbox is gone'')\<rparr>)
      (probe_command config_from_spec) = Inl (mockError ''sandbox is gone'')
   \<and> fst (isR2Accessible_try config_from_spec
        ((createMockSandbox True)\<lparr>startProcess := \<lambda>_. Inl (mockError ''sandbox is gone'')\<rparr>))
      = Inl (mockError ''sandbox is gone'')
   \<and> fst (isR2Accessible config_from_spec
        ((createMockSandbox True)\<lparr>startProcess := \<lambda>_. Inl (mockError ''sandbox is gone'')\<rparr>))
      = Inr False
   \<and> startProcess ((createMockSandbox True)\<lparr>startProcess := \<lambda>_.
          Inr ((createMockProcess ''accessible'' ''completed'')\<lparr>getLogs := Inl (mockError ''no logs'')\<rparr>)\<rparr>)
      (probe_command config_from_spec)
      = Inr ((createMockProcess ''accessible'' ''completed'')\<lparr>getLogs := Inl (mockError ''no logs'')\<rparr>)
   \<and> getLogs ((createMockProcess ''accessible'' ''completed'')\<lparr>getLogs := Inl (mockError ''no logs'')\<rparr>)
      = Inl (mockError ''no logs'')
   \<and> fst (isR2Accessible config_from_spec
        ((createMockSandbox True)\<lparr>startProcess := \<lambda>_.
          Inr ((createMockProcess ''accessible'' ''completed'')\<lparr>getLogs := Inl (mockError ''no logs'')\<rparr>)\<rparr>))
      = Inr False"
  (is "?a1 \<and> ?a2 \<and> ?a3 \<and> ?b1 \<and> ?b2 \<and> ?b3")
proof -
  have a1: ?a1 and b1: ?b1 and b2: ?b2 by simp_all
  have a2: ?a2 by (simp add: isR2Accessible_try_def)
  from a1 a2 b1 b2
    isR2Accessible_never_throws [of config_from_spec
      "(createMockSandbox True)\<lparr>startProcess := \<lambda>_. Inl (mockError ''sandbox is gone'')\<rparr>"]
    isR2Accessible_never_throws [of config_from_spec
      "(createMockSandbox True)\<lparr>startProcess := \<lambda>_.
          Inr ((createMockProcess ''accessible'' ''completed'')\<lparr>getLogs := Inl (mockError ''no logs'')\<rparr>)\<rparr>"]
  show ?thesis by blast
qed


text \<open>
  C7. The poll loop is bounded. When \<open>startProcess\<close> returns a process, the loop
  sleeps 200ms \<open>n\<close> times for some \<open>n \<le> 10\<close>: the status read was "running" at
  each of the reads \<open>0, ..., n - 1\<close>, and the loop stops before ten sleeps only on
  a status other than "running". Then \<open>getLogs\<close> is called, whatever the statuses
  were, and the probe returns.
\<close>

theorem poll_loop_bounded:
  assumes "startProcess sb (probe_command cfg) = Inr proc"
  shows "\<exists>n rest. n \<le> 10
           \<and> poll proc 0 = (n, replicate n (Sleep 200))
           \<and> (\<forall>i<n. status proc i = ''running'')
           \<and> (n < 10 \<longrightarrow> status proc n \<noteq> ''running'')
           \<and> snd (isR2Accessible cfg sb) =
               StartProcessCall (probe_command cfg) # replicate n (Sleep 200) @ GetLogsCall # rest
           \<and> (\<exists>r. fst (isR2Accessible cfg sb) = Inr r)"
proof -
  obtain n evs where p: "poll proc 0 = (n, evs)" by (cases "poll proc 0")
  from poll_spec [OF p] have n: "n \<le> 10" and evs: "evs = replicate n (Sleep 200)"
    and run: "\<forall>i<n. status proc i = ''running''"
    and stop: "n < 10 \<longrightarrow> status proc n \<noteq> ''running''"
    by simp_all
  from assms p evs have "\<exists>rest. snd (isR2Accessible cfg sb) =
      StartProcessCall (probe_command cfg) # replicate n (Sleep 200) @ GetLogsCall # rest"
    by (simp add: isR2Accessible_def isR2Accessible_try_def split: sum.splits)
  with n p evs run stop isR2Accessible_returns [of cfg sb] show ?thesis by blast
qed

theorem poll_loop_bounded_witness:
  "startProcess ((createMockSandbox True)\<lparr>startProcess := \<lambda>_. Inr (createMockProcess ''accessible'' ''running'')\<rparr>)
       (probe_command config_from_spec) = Inr (createMockProcess ''accessible'' ''running'')
   \<and> (\<exists>n rest. n \<le> 10
         \<and> poll (createMockProcess ''accessible'' ''running'') 0 = (n, replicate n (Sleep 200))
         \<and> (\<forall>i<n. status (createMockProcess ''accessible'' ''running'') i = ''running'')
         \<and> (n < 10 \<longrightarrow> status (createMockProcess ''accessible'' ''running'') n \<noteq> ''running'')
         \<and> snd (isR2Accessible config_from_spec
               ((createMockSandbox True)\<lparr>startProcess := \<lambda>_. Inr (createMockProcess ''accessible'' ''running'')\<rparr>)) =
             StartProcessCall (probe_command config_from_spec) # replicate n (Sleep 200) @ GetLogsCall # rest
         \<and> (\<exists>r. fst (isR2Accessible config_from_spec
               ((createMockSandbox True)\<lparr>startProcess := \<lambda>_. Inr (createMockProcess ''accessible'' ''running'')\<rparr>)) = Inr r))
   \<and> poll (createMockProcess ''accessible'' ''running'') 0 = (10, replicate 10 (Sleep 200))"
  (is "?h \<and> ?c \<and> ?ten")
proof -
  have h: ?h by simp
  from poll_loop_bounded [OF h] h poll_always_running show ?thesis by blast
qed

text \<open>
  C8. When neither \<open>startProcess\<close> nor \<open>getLogs\<close> throws, \<open>isR2Accessible\<close>
  returns \<open>true\<close> if and only if the captured standard output is defined, is not
  empty and contains the token "accessible" (and \<open>false\<close> otherwise).
\<close>

theorem accessible_iff_stdout_has_token:
  assumes "startProcess sb (probe_command cfg) = Inr proc"
    and "getLogs proc = Inr lg"
  shows "fst (isR2Accessible cfg sb) =
           Inr (\<exists>out. stdout lg = Some out \<and> out \<noteq> [] \<and> (\<exists>u v. out = u @ ''accessible'' @ v))"
proof -
  have "stdout_accessible (stdout lg) =
          (\<exists>out. stdout lg = Some out \<and> out \<noteq> [] \<and> (\<exists>u v. out = u @ ''accessible'' @ v))"
    by (cases "stdout lg") (simp_all add: str_includes_iff)
  with assms show ?thesis
    by (simp add: isR2Accessible_def isR2Accessible_try_def split: prod.splits)
qed

theorem accessible_iff_stdout_has_token_witness:
  "startProcess (createMockSandbox True) (probe_command config_from_spec)
       = Inr (createMockProcess ''accessible'' ''completed'')
   \<and> getLogs (createMockProcess ''accessible'' ''completed'')
       = Inr \<lparr>stdout = Some ''accessible'', stderr = Some ''''\<rparr>
   \<and> fst (isR2Accessible config_from_spec (createMockSandbox True)) = Inr True
   \<and> startProcess (createMockSandbox False) (probe_command config_from_spec)
       = Inr (createMockProcess '''' ''completed'')
   \<and> getLogs (createMockProcess '''' ''completed'')
       = Inr \<lparr>stdout = Some '''', stderr = Some ''''\<rparr>
   \<and> fst (isR2Accessible config_from_spec (createMockSandbox False)) = Inr False"
  (is "?a1 \<and> ?a2 \<and> ?a3 \<and> ?b1 \<and> ?b2 \<and> ?b3")
proof -
  have a1: ?a1 and b1: ?b1 by (simp_all add: createMockSandbox_def)
  have a2: ?a2 and b2: ?b2 by (simp_all add: createMockProcess_def)
  have t: "\<exists>u v. ''accessible'' = u @ ''accessible'' @ v"
    by (rule exI [of _ "[]"], rule exI [of _ "[]"]) simp
  from accessible_iff_stdout_has_token [OF a1 a2] t have a3: ?a3 by simp
  from accessible_iff_stdout_has_token [OF b1 b2] have b3: ?b3 by simp
  from a1 a2 a3 b1 b2 b3 show ?thesis by blast
qed

subsection \<open>Bucket name and empty credentials\<close>

text \<open>
  C9. With the configuration modelled from the spec: when the environment
  supplies a bucket-name override, every \<open>mountBucket\<close> call of \<open>mountR2Storage\<close>
  has that name as its first argument, and with the three credentials configured
  there is exactly one such call.
\<close>

theorem custom_bucket_name_passed:
  assumes "R2_BUCKET_NAME env = Some name"
  shows "(\<forall>c \<in> set (mount_calls (snd (mountR2Storage config_from_spec sb env))). fst c = name)
         \<and> (truthy (R2_ACCESS_KEY_ID env) \<and> truthy (R2_SECRET_ACCESS_KEY env)
              \<and> truthy (CF_ACCOUNT_ID env)
            \<longrightarrow> mount_calls (snd (mountR2Storage config_from_spec sb env)) =
                  [(name, ''/data/moltbot'', mount_payload env)])"
  using assms by (simp add: mount_calls_mountR2Storage config_from_spec_def)

theorem custom_bucket_name_passed_witness:
  "R2_BUCKET_NAME (createMockEnvWithR2\<lparr>R2_BUCKET_NAME := Some ''moltbot-e2e-test123''\<rparr>) = Some ''moltbot-e2e-test123''
   \<and> truthy (R2_ACCESS_KEY_ID (createMockEnvWithR2\<lparr>R2_BUCKET_NAME := Some ''moltbot-e2e-test123''\<rparr>))
   \<and> truthy (R2_SECRET_ACCESS_KEY (createMockEnvWithR2\<lparr>R2_BUCKET_NAME := Some ''moltbot-e2e-test123''\<rparr>))
   \<and> truthy (CF_ACCOUNT_ID (createMockEnvWithR2\<lparr>R2_BUCKET_NAME := Some ''moltbot-e2e-test123''\<rparr>))
   \<and> mount_calls (snd (mountR2Storage config_from_spec (createMockSandbox False)
         (createMockEnvWithR2\<lparr>R2_BUCKET_NAME := Some ''moltbot-e2e-test123''\<rparr>))) =
       [(''moltbot-e2e-test123'', ''/data/moltbot'',
         mount_payload (createMockEnvWithR2\<lparr>R2_BUCKET_NAME := Some ''moltbot-e2e-test123''\<rparr>))]"
  (is "?h \<and> ?t1 \<and> ?t2 \<and> ?t3 \<and> ?c")
proof -
  have h: ?h by simp
  have t: "?t1 \<and> ?t2 \<and> ?t3" by (simp add: createMockEnvWithR2_def createMockEnv_def)
  from custom_bucket_name_passed [OF h, of "createMockSandbox False"] h t
  show ?thesis by blast
qed

text \<open>
  C10. A credential field that is present but equal to the empty string is treated
  as an absent one: if one of the three fields is the empty string,
  \<open>mountR2Storage\<close> returns \<open>false\<close> and \<open>mountBucket\<close> is never invoked.
\<close>

theorem empty_credential_returns_false:
  assumes "R2_ACCESS_KEY_ID env = Some [] \<or> R2_SECRET_ACCESS_KEY env = Some []
           \<or> CF_ACCOUNT_ID env = Some []"
  shows "fst (mountR2Storage cfg sb env) = Inr False
         \<and> mount_calls (snd (mountR2Storage cfg sb env)) = []
         \<and> snd (mountR2Storage cfg sb env) =
             [Console LOG [Str ''R2 storage not configured (missing R2_ACCESS_KEY_ID, R2_SECRET_ACCESS_KEY, or CF_ACCOUNT_ID)'']]"
  using assms by (auto simp add: mountR2Storage_def)

theorem empty_credential_returns_false_witness:
  "R2_ACCESS_KEY_ID (createMockEnvWithR2\<lparr>R2_ACCESS_KEY_ID := Some ''''\<rparr>) = Some ''''
   \<and> fst (mountR2Storage config_from_spec (createMockSandbox False)
            (createMockEnvWithR2\<lparr>R2_ACCESS_KEY_ID := Some ''''\<rparr>)) = Inr False
   \<and> mount_calls (snd (mountR2Storage config_from_spec (createMockSandbox False)
            (createMockEnvWithR2\<lparr>R2_ACCESS_KEY_ID := Some ''''\<rparr>))) = []
   \<and> R2_SECRET_ACCESS_KEY (createMockEnvWithR2\<lparr>R2_SECRET_ACCESS_KEY := Some ''''\<rparr>) = Some ''''
   \<and> fst (mountR2Storage config_from_spec (createMockSandbox False)
            (createMockEnvWithR2\<lparr>R2_SECRET_ACCESS_KEY := Some ''''\<rparr>)) = Inr False
   \<and> mount_calls (snd (mountR2Storage config_from_spec (createMockSandbox False)
            (createMockEnvWithR2\<lparr>R2_SECRET_ACCESS_KEY := Some ''''\<rparr>))) = []
   \<and> CF_ACCOUNT_ID (createMockEnvWithR2\<lparr>CF_ACCOUNT_ID := Some ''''\<rparr>) = Some ''''
   \<and> fst (mountR2Storage config_from_spec (createMockSandbox False)
            (createMockEnvWithR2\<lparr>CF_ACCOUNT_ID := Some ''''\<rparr>)) = Inr False
   \<and> mount_calls (snd (mountR2Storage config_from_spec (createMockSandbox False)
            (createMockEnvWithR2\<lparr>CF_ACCOUNT_ID := Some ''''\<rparr>))) = []"
  (is "?a \<and> ?ra \<and> ?ca \<and> ?b \<and> ?rb \<and> ?cb \<and> ?c \<and> ?rc \<and> ?cc")
proof -
  have a: ?a and b: ?b and c: ?c by simp_all
  from a b c
    empty_credential_returns_false [OF disjI1, OF a, of config_from_spec "createMockSandbox False"]
    empty_credential_returns_false [OF disjI2, OF disjI1, OF b, of config_from_spec "createMockSandbox False"]
    empty_credential_returns_false [OF disjI2, OF disjI2, OF c, of config_from_spec "createMockSandbox False"]
  show ?thesis by blast
qed

end
